theory Spec2Isabelle
  imports Complex_Main "HOL-Library.Char_ord" "HOL-Library.List_Lexorder" "HOL-Library.Option_ord"
    "HOL-Library.Multiset"
begin

section \<open>The feedback analysis agent of \<^verbatim>\<open>src/index.ts\<close>\<close>

text \<open>
  The theory embeds the class \<^verbatim>\<open>FeedbackAnalysisAgent\<close>: the ingestion loop
  \<^verbatim>\<open>ingestFeedback\<close>, the \<^verbatim>\<open>/ingest\<close> branch of \<^verbatim>\<open>fetch\<close>, and the read operations
  \<^verbatim>\<open>getRecentFeedback\<close>, \<^verbatim>\<open>getDashboardData\<close>, \<^verbatim>\<open>generateSummary\<close> and \<^verbatim>\<open>getTrends\<close>.

  What the platform provides is not code of the repository and is taken as a parameter,
  collected in the record \<open>env\<close>: the random identifiers, the answers of the model behind
  \<^verbatim>\<open>env.AI.run\<close>, \<^verbatim>\<open>JSON.parse\<close>, the conversion of a JavaScript value to a string, the
  clock, and SQLite's \<^verbatim>\<open>DATE\<close> function.

  Conventions of the model:
  \<^item> a JavaScript string is a \<open>string\<close>, compared byte by byte, as SQLite's BINARY
    collation compares TEXT (JavaScript compares code units, which is the same order on
    ASCII text such as ISO-8601 timestamps);
  \<^item> a JavaScript number is a rational: the rounding of IEEE-754 doubles is not modelled,
    so a product that a double computes just below a half (\<^verbatim>\<open>0.575 * 100\<close>) is exact here;
  \<^item> an exception is a value \<open>Inl e\<close>; the state of the agent is passed explicitly.
\<close>

subsection \<open>JavaScript values\<close>

datatype json =
    JNull
  | JBool bool
  | JNum rat
  | JStr string
  | JArr "json list"
  | JObj "(string \<times> json) list"

text \<open>Truthiness, as \<^verbatim>\<open>||\<close> tests it. An absent property is \<^verbatim>\<open>undefined\<close>, here \<open>None\<close>.\<close>

fun truthy :: "json \<Rightarrow> bool" where
  "truthy JNull = False"
| "truthy (JBool b) = b"
| "truthy (JNum n) = (n \<noteq> 0)"
| "truthy (JStr s) = (s \<noteq> [])"
| "truthy (JArr xs) = True"
| "truthy (JObj kvs) = True"

text \<open>\<^verbatim>\<open>Math.round\<close>: the nearest integer, a tie going to the larger one.\<close>

definition Math_round :: "rat \<Rightarrow> int" where
  "Math_round x = \<lfloor>x + 1 / 2\<rfloor>"

subsection \<open>The data model\<close>

text \<open>
  An element of the request body's \<^verbatim>\<open>feedback\<close> array. The declared type makes
  \<^verbatim>\<open>source\<close>, \<^verbatim>\<open>content\<close> and \<^verbatim>\<open>timestamp\<close> required, but the body is parsed JSON that
  nothing validates, so each of them may be absent (or null) at run time. Properties
  that the declared type does not have, \<^verbatim>\<open>id\<close> among them, are not modelled.
\<close>

record RawInput =
  in_source :: "string option"
  in_content :: "string option"
  in_timestamp :: "string option"
  in_metadata :: "json option"

text \<open>
  \<^verbatim>\<open>interface FeedbackItem\<close>, as \<^verbatim>\<open>ingestFeedback\<close> builds it and as \<^verbatim>\<open>getRecentFeedback\<close>
  reads it back. The sentiment is declared as one of three literals, but the value
  assigned to it comes out of \<^verbatim>\<open>JSON.parse\<close> (type \<^verbatim>\<open>any\<close>), so the model keeps a JavaScript
  value; the same holds for the elements of \<^verbatim>\<open>themes\<close>. The score is a number, since the
  source assigns it only under \<^verbatim>\<open>typeof parsed.score === "number"\<close>.
\<close>

record FeedbackItem =
  item_id :: string
  source :: string
  content :: string
  timestamp :: string
  sentiment :: json
  score :: rat
  themes :: "json list"
  metadata :: "json option"

text \<open>
  A row of the table \<^verbatim>\<open>feedback\<close>. The columns \<^verbatim>\<open>source\<close>, \<^verbatim>\<open>content\<close>, \<^verbatim>\<open>timestamp\<close> are
  \<^verbatim>\<open>NOT NULL\<close>; \<^verbatim>\<open>id\<close> is the primary key. The only \<^verbatim>\<open>INSERT\<close> of the program always binds a
  value to \<^verbatim>\<open>sentiment\<close>, \<^verbatim>\<open>score\<close>, \<^verbatim>\<open>themes\<close> and \<^verbatim>\<open>metadata\<close>, so these columns hold no
  NULL. The columns \<^verbatim>\<open>themes\<close> and \<^verbatim>\<open>metadata\<close> hold \<^verbatim>\<open>JSON.stringify\<close> of a value that
  \<^verbatim>\<open>getRecentFeedback\<close> reads back with \<^verbatim>\<open>JSON.parse\<close>; the model keeps the value itself.
  What the SQL binding does to a sentiment that is not a string is not modelled.
\<close>

record row =
  row_id :: string
  row_source :: string
  row_content :: string
  row_timestamp :: string
  row_sentiment :: json
  row_score :: rat
  row_themes :: "json list"
  row_metadata :: json

datatype prompt = AnalyzePrompt | AskPrompt | SummaryPrompt

text \<open>
  What \<^verbatim>\<open>await this.env.AI.run(...)\<close> followed by the read of \<^verbatim>\<open>response.response\<close> gives:
  the call or the read throws (\<open>AI_throws\<close>), or there is a response object whose
  \<^verbatim>\<open>response\<close> property is a string, as the platform declares it, or is absent.
\<close>

datatype ai_outcome = AI_throws | AI_response "string option"

datatype error =
    NotNullConstraint
  | PrimaryKeyConstraint
  | NotIterable
  | RangeError
  | AIError

record env =
  randomUUID :: "nat \<Rightarrow> string"
  AI_run :: "nat \<Rightarrow> prompt \<Rightarrow> string option \<Rightarrow> ai_outcome"
  JSON_parse :: "string \<Rightarrow> json option"
  js_String :: "json \<Rightarrow> string"
  toISOString_days_ago :: "int \<Rightarrow> string option"
  sql_DATE :: "string \<Rightarrow> string option"
  sql_DATE_days_ago :: "int \<Rightarrow> string option"

text \<open>
  \<^item> \<open>randomUUID e n\<close>: the result of the \<open>n\<close>-th call of \<^verbatim>\<open>crypto.randomUUID()\<close>;
  \<^item> \<open>AI_run e n p c\<close>: the outcome of the \<open>n\<close>-th call of \<^verbatim>\<open>env.AI.run\<close>, made with the
    system prompt \<open>p\<close> and the user message \<open>c\<close>;
  \<^item> \<open>JSON_parse e s\<close>: \<^verbatim>\<open>JSON.parse(s)\<close>, \<open>None\<close> when it throws a SyntaxError;
  \<^item> \<open>js_String e v\<close>: the string a template literal or a property access makes of a
    value \<open>v\<close> that is not a string;
  \<^item> \<open>toISOString_days_ago e d\<close>:
    \<^verbatim>\<open>new Date(Date.now() - d * 24 * 60 * 60 * 1000).toISOString()\<close>, \<open>None\<close> when it throws;
  \<^item> \<open>sql_DATE e t\<close>: SQLite's \<^verbatim>\<open>DATE(t)\<close>, \<open>None\<close> for NULL;
  \<^item> \<open>sql_DATE_days_ago e d\<close>: SQLite's \<^verbatim>\<open>DATE('now', '-' || d || ' days')\<close>.
\<close>

record agent =
  feedback_table :: "row list"
  uuid_calls :: nat
  ai_calls :: "(prompt \<times> string option) list"

text \<open>
  The state: the table in insertion order, the number of identifiers drawn so far, and
  the calls of \<^verbatim>\<open>env.AI.run\<close> made so far (the last one last).
\<close>

subsection \<open>Ingestion\<close>

text \<open>
  \<^verbatim>\<open>text.match(/\{[\s\S]*\}/)\<close>: the match starts at the first \<^verbatim>\<open>{\<close> and, the star being
  greedy, ends at the last \<^verbatim>\<open>}\<close> behind it; there is none when no \<^verbatim>\<open>}\<close> follows the first
  \<^verbatim>\<open>{\<close>.
\<close>

definition match_braces :: "string \<Rightarrow> string option" where
  "match_braces text =
     (let from_open = dropWhile (\<lambda>c. c \<noteq> CHR ''{'') text;
          upto_close = rev (dropWhile (\<lambda>c. c \<noteq> CHR ''}'') (rev from_open))
      in if upto_close = [] then None else Some upto_close)"

definition neutral :: json where
  "neutral = JStr ''neutral''"

text \<open>
  The three assignments behind \<^verbatim>\<open>JSON.parse\<close>. A parsed value that is not an object has
  none of the three properties (reading a property of \<^verbatim>\<open>null\<close> throws, into the
  \<^verbatim>\<open>catch\<close>), which leaves the initial values.
\<close>

fun read_parsed :: "json \<Rightarrow> json \<times> rat \<times> json list" where
  "read_parsed (JObj kvs) =
     ((case map_of kvs ''sentiment'' of
         Some v \<Rightarrow> if truthy v then v else neutral
       | None \<Rightarrow> neutral),
      (case map_of kvs ''score'' of
         Some (JNum n) \<Rightarrow> n
       | _ \<Rightarrow> 5),
      (case map_of kvs ''themes'' of
         Some (JArr ts) \<Rightarrow> ts
       | _ \<Rightarrow> []))"
| "read_parsed _ = (neutral, 5, [])"

text \<open>The body of the \<^verbatim>\<open>try\<close> block, from the outcome of the call on.\<close>

definition analyze :: "env \<Rightarrow> ai_outcome \<Rightarrow> json \<times> rat \<times> json list" where
  "analyze e out =
     (case out of
        AI_throws \<Rightarrow> (neutral, 5, [])
      | AI_response r \<Rightarrow>
          (let text = (case r of None \<Rightarrow> [] | Some t \<Rightarrow> t)
           in case match_braces text of
                None \<Rightarrow> (neutral, 5, [])
              | Some m \<Rightarrow>
                  (case JSON_parse e m of
                     None \<Rightarrow> (neutral, 5, [])
                   | Some parsed \<Rightarrow> read_parsed parsed)))"

text \<open>
  The \<^verbatim>\<open>INSERT\<close>: it throws when a \<^verbatim>\<open>NOT NULL\<close> column gets no value or when the
  identifier is already a key of the table, and appends the row otherwise.
\<close>

definition sql_insert ::
  "row list \<Rightarrow> string \<Rightarrow> RawInput \<Rightarrow> json \<Rightarrow> rat \<Rightarrow> json list \<Rightarrow> error + row list" where
  "sql_insert tbl i item s sc ths =
     (case (in_source item, in_content item, in_timestamp item) of
        (Some src, Some c, Some ts) \<Rightarrow>
          if i \<in> row_id ` set tbl then Inl PrimaryKeyConstraint
          else Inr (tbl @ [\<lparr>row_id = i, row_source = src, row_content = c, row_timestamp = ts,
                 row_sentiment = s, row_score = sc, row_themes = ths,
                 row_metadata = (case in_metadata item of
                                   Some m \<Rightarrow> if truthy m then m else JObj []
                                 | None \<Rightarrow> JObj [])\<rparr>])
      | _ \<Rightarrow> Inl NotNullConstraint)"

text \<open>
  The object \<^verbatim>\<open>{ id, ...item, sentiment, score, themes }\<close>. The loop below builds it
  only for an item whose \<^verbatim>\<open>INSERT\<close> succeeded, where the three required fields are
  present (the source builds it before the \<^verbatim>\<open>INSERT\<close> and drops it when that throws).
\<close>

definition make_feedback ::
  "string \<Rightarrow> RawInput \<Rightarrow> json \<Rightarrow> rat \<Rightarrow> json list \<Rightarrow> FeedbackItem" where
  "make_feedback i item s sc ths =
     \<lparr>item_id = i,
      source = (case in_source item of Some x \<Rightarrow> x | None \<Rightarrow> []),
      content = (case in_content item of Some x \<Rightarrow> x | None \<Rightarrow> []),
      timestamp = (case in_timestamp item of Some x \<Rightarrow> x | None \<Rightarrow> []),
      sentiment = s, score = sc, themes = ths, metadata = in_metadata item\<rparr>"

text \<open>
  One pass of the \<^verbatim>\<open>for\<close> loop of \<^verbatim>\<open>ingestFeedback\<close>, then the rest of the loop. An
  exception of the \<^verbatim>\<open>INSERT\<close> leaves the loop and the function; the rows inserted before
  stay in the table.
\<close>

fun ingest_loop ::
  "env \<Rightarrow> RawInput list \<Rightarrow> FeedbackItem list \<Rightarrow> agent \<Rightarrow> (error + FeedbackItem list) \<times> agent" where
  "ingest_loop e [] processed st = (Inr processed, st)"
| "ingest_loop e (item # items) processed st =
     (let i = randomUUID e (uuid_calls st);
          out = AI_run e (length (ai_calls st)) AnalyzePrompt (in_content item);
          st1 = st\<lparr>uuid_calls := Suc (uuid_calls st),
                   ai_calls := ai_calls st @ [(AnalyzePrompt, in_content item)]\<rparr>
      in case analyze e out of
           (s, sc, ths) \<Rightarrow>
             (case sql_insert (feedback_table st1) i item s sc ths of
                Inl err \<Rightarrow> (Inl err, st1)
              | Inr tbl \<Rightarrow>
                  ingest_loop e items (processed @ [make_feedback i item s sc ths])
                    (st1\<lparr>feedback_table := tbl\<rparr>)))"

definition ingestFeedback ::
  "env \<Rightarrow> RawInput list \<Rightarrow> agent \<Rightarrow> (error + FeedbackItem list) \<times> agent" where
  "ingestFeedback e items st = ingest_loop e items [] st"

text \<open>
  The \<^verbatim>\<open>/ingest\<close> branch of \<^verbatim>\<open>fetch\<close>: the \<^verbatim>\<open>feedback\<close> property of the body (absent:
  \<open>None\<close>, which \<^verbatim>\<open>for ... of\<close> cannot iterate) goes to \<^verbatim>\<open>ingestFeedback\<close>; an exception
  becomes the response with status 500.
\<close>

datatype response = Processed nat | Status500 error

definition fetch_ingest :: "env \<Rightarrow> RawInput list option \<Rightarrow> agent \<Rightarrow> response \<times> agent" where
  "fetch_ingest e body st =
     (case body of
        None \<Rightarrow> (Status500 NotIterable, st)
      | Some items \<Rightarrow>
          (case ingestFeedback e items st of
             (Inl err, st') \<Rightarrow> (Status500 err, st')
           | (Inr results, st') \<Rightarrow> (Processed (length results), st')))"

subsection \<open>Reading the table\<close>





text \<open>\<^verbatim>\<open>AVG\<close> over a column without NULL: NULL for no row, the mean otherwise.\<close>

definition sql_AVG :: "rat list \<Rightarrow> rat option" where
  "sql_AVG xs = (if xs = [] then None else Some (sum_list xs / of_nat (length xs)))"

subsection \<open>JavaScript objects used as dictionaries\<close>








subsection \<open>The dashboard\<close>




record trend_counts =
  tc_positive :: nat
  tc_negative :: nat
  tc_total :: nat



record theme_health =
  th_theme :: string
  th_total :: nat
  th_positive :: nat
  th_negative :: nat
  th_score :: int

definition health_entry :: "string \<times> trend_counts \<Rightarrow> theme_health" where
  "health_entry p =
     (case p of (theme, d) \<Rightarrow>
        \<lparr>th_theme = theme, th_total = tc_total d, th_positive = tc_positive d,
         th_negative = tc_negative d,
         th_score = (if tc_total d > 0
                     then Math_round (((of_nat (tc_positive d) - of_nat (tc_negative d))
                                        / of_nat (tc_total d)) * 100)
                     else 0)\<rparr>)"





subsection \<open>Trends\<close>

record trend =
  tr_date :: "string option"
  tr_total :: nat
  tr_positive :: nat
  tr_negative :: nat
  tr_avgScore :: rat

text \<open>
  The rows of \<^verbatim>\<open>WHERE timestamp > DATE('now', '-' || ? || ' days')\<close>: a comparison of
  strings, which no row passes when the date is NULL.
\<close>

definition trend_window :: "env \<Rightarrow> int \<Rightarrow> row list \<Rightarrow> row list" where
  "trend_window e days tbl =
     (case sql_DATE_days_ago e days of
        None \<Rightarrow> []
      | Some cutoff \<Rightarrow> filter (\<lambda>r. cutoff < row_timestamp r) tbl)"

definition row_date :: "env \<Rightarrow> row \<Rightarrow> string option" where
  "row_date e r = sql_DATE e (row_timestamp r)"

text \<open>
  One group of \<^verbatim>\<open>GROUP BY DATE(timestamp)\<close> with its aggregates, and the mapping of the
  result row.
\<close>

definition trend_entry :: "env \<Rightarrow> row list \<Rightarrow> string option \<Rightarrow> trend" where
  "trend_entry e rows d =
     (let grp = filter (\<lambda>r. row_date e r = d) rows
      in \<lparr>tr_date = d,
          tr_total = length grp,
          tr_positive = length (filter (\<lambda>r. row_sentiment r = JStr ''positive'') grp),
          tr_negative = length (filter (\<lambda>r. row_sentiment r = JStr ''negative'') grp),
          tr_avgScore =
            of_int (Math_round ((case sql_AVG (map row_score grp) of Some a \<Rightarrow> a | None \<Rightarrow> 0) * 10))
              / 10\<rparr>)"

text \<open>
  \<^verbatim>\<open>GROUP BY DATE(timestamp) ORDER BY date\<close>: one group for each date that occurs, in
  ascending order, NULL first.
\<close>

definition getTrends :: "env \<Rightarrow> int \<Rightarrow> agent \<Rightarrow> trend list" where
  "getTrends e days st =
     (let rows = trend_window e days (feedback_table st)
      in map (trend_entry e rows) (sort (remdups (map (row_date e) rows))))"

subsection \<open>The summary\<close>






subsection \<open>Notions used to state the properties of ingestion\<close>

text \<open>An input is well formed when the three required fields are present.\<close>

definition well_formed :: "RawInput \<Rightarrow> bool" where
  "well_formed item = (in_source item \<noteq> None \<and> in_content item \<noteq> None \<and> in_timestamp item \<noteq> None)"

text \<open>The row that the \<^verbatim>\<open>INSERT\<close> writes for a returned item.\<close>

definition to_row :: "FeedbackItem \<Rightarrow> row" where
  "to_row f = \<lparr>row_id = item_id f, row_source = source f, row_content = content f,
     row_timestamp = timestamp f, row_sentiment = sentiment f, row_score = score f,
     row_themes = themes f,
     row_metadata = (case metadata f of Some m \<Rightarrow> if truthy m then m else JObj [] | None \<Rightarrow> JObj [])\<rparr>"

text \<open>
  The item that one pass of the loop makes of an input: \<open>u\<close> is the number of the
  identifier drawn and \<open>a\<close> the number of the call of the model.
\<close>

definition classified :: "env \<Rightarrow> nat \<Rightarrow> nat \<Rightarrow> RawInput \<Rightarrow> FeedbackItem" where
  "classified e u a item =
     (case analyze e (AI_run e a AnalyzePrompt (in_content item)) of
        (s, sc, ths) \<Rightarrow> make_feedback (randomUUID e u) item s sc ths)"

fun expected :: "env \<Rightarrow> nat \<Rightarrow> nat \<Rightarrow> RawInput list \<Rightarrow> FeedbackItem list" where
  "expected e u a [] = []"
| "expected e u a (item # items) = classified e u a item # expected e (Suc u) (Suc a) items"

text \<open>
  The next \<open>n\<close> identifiers are fresh: pairwise different and not yet keys of the table.
\<close>

definition fresh_ids :: "env \<Rightarrow> agent \<Rightarrow> nat \<Rightarrow> bool" where
  "fresh_ids e st n =
     (let ids = map (randomUUID e) [uuid_calls st ..< uuid_calls st + n]
      in distinct ids \<and> (\<forall>i \<in> set ids. i \<notin> row_id ` set (feedback_table st)))"

text \<open>The state behind a run of inputs that were all inserted.\<close>

definition after_items :: "env \<Rightarrow> agent \<Rightarrow> RawInput list \<Rightarrow> agent" where
  "after_items e st items =
     st\<lparr>uuid_calls := uuid_calls st + length items,
        ai_calls := ai_calls st @ map (\<lambda>item. (AnalyzePrompt, in_content item)) items,
        feedback_table := feedback_table st @
            map to_row (expected e (uuid_calls st) (length (ai_calls st)) items)\<rparr>"

text \<open>
  The classification of an item fails when the call throws, when the response has no
  match of the brace pattern, or when \<^verbatim>\<open>JSON.parse\<close> throws on the match.
\<close>

definition classification_fails :: "env \<Rightarrow> ai_outcome \<Rightarrow> bool" where
  "classification_fails e out =
     (case out of
        AI_throws \<Rightarrow> True
      | AI_response r \<Rightarrow>
          (case match_braces (case r of None \<Rightarrow> [] | Some t \<Rightarrow> t) of
             None \<Rightarrow> True
           | Some m \<Rightarrow> JSON_parse e m = None))"

text \<open>The properties of the object that \<^verbatim>\<open>JSON.parse\<close> returned, when it returned one.\<close>

definition parsed_object :: "env \<Rightarrow> ai_outcome \<Rightarrow> (string \<times> json) list option" where
  "parsed_object e out =
     (case out of
        AI_throws \<Rightarrow> None
      | AI_response r \<Rightarrow>
          (case match_braces (case r of None \<Rightarrow> [] | Some t \<Rightarrow> t) of
             None \<Rightarrow> None
           | Some m \<Rightarrow>
               (case JSON_parse e m of
                  Some (JObj kvs) \<Rightarrow> Some kvs
                | _ \<Rightarrow> None)))"

subsection \<open>Notions used to state the properties of the themes\<close>


text \<open>The distinct elements of a list in the order of their first occurrence.\<close>

fun first_seen :: "'a list \<Rightarrow> 'a list" where
  "first_seen [] = []"
| "first_seen (x # xs) = x # first_seen (filter (\<lambda>y. y \<noteq> x) xs)"







subsection \<open>An example environment\<close>

definition ex_uuid :: "nat \<Rightarrow> string" where
  "ex_uuid n = replicate (Suc n) (CHR ''u'')"

definition ex_parse :: "string \<Rightarrow> json option" where
  \<open>ex_parse s =
     (if s = ''{"sentiment":"positive","score":9,"themes":["pricing","404"]}''
      then Some (JObj [(''sentiment'', JStr ''positive''), (''score'', JNum 9),
                       (''themes'', JArr [JStr ''pricing'', JStr ''404''])])
      else if s = ''{"sentiment":"mixed","score":7,"themes":["ui"]}''
      then Some (JObj [(''sentiment'', JStr ''mixed''), (''score'', JNum 7),
                       (''themes'', JArr [JStr ''ui''])])
      else if s = ''{"score":"high","themes":"none"}''
      then Some (JObj [(''score'', JStr ''high''), (''themes'', JStr ''none'')])
      else None)\<close>

definition ex_AI :: "nat \<Rightarrow> prompt \<Rightarrow> string option \<Rightarrow> ai_outcome" where
  \<open>ex_AI n p c =
     (if n = 0 then AI_response (Some ''Sure: {"sentiment":"positive","score":9,"themes":["pricing","404"]}'')
      else if n = 1 then AI_throws
      else if n = 2 then AI_response (Some ''I cannot tell.'')
      else if n = 3 then AI_response (Some ''{"score":"high","themes":"none"}'')
      else if n = 4 then AI_response (Some ''{not json}'')
      else AI_response None)\<close>

definition ex_String :: "json \<Rightarrow> string" where
  "ex_String v =
     (case v of
        JNum n \<Rightarrow> (if n = 2 then ''2'' else if n = 3 then ''3'' else if n = 5 then ''5''
                   else if n = 7 then ''7'' else if n = 9 then ''9'' else if n = 30 then ''30''
                   else ''0'')
      | JNull \<Rightarrow> ''null''
      | JBool b \<Rightarrow> (if b then ''true'' else ''false'')
      | _ \<Rightarrow> ''[object Object]'')"

definition ex_env :: env where
  "ex_env = \<lparr>randomUUID = ex_uuid, AI_run = ex_AI, JSON_parse = ex_parse,
     js_String = ex_String,
     toISOString_days_ago = (\<lambda>d. Some ''2026-01-22T12:00:00.000Z''),
     sql_DATE = (\<lambda>t. if length t < 10 then None else Some (take 10 t)),
     sql_DATE_days_ago = (\<lambda>d. Some ''2025-12-30'')\<rparr>"

definition ex_input :: "string \<Rightarrow> string \<Rightarrow> RawInput" where
  "ex_input c t = \<lparr>in_source = Some ''app_store'', in_content = Some c, in_timestamp = Some t,
     in_metadata = None\<rparr>"

definition ex_batch :: "RawInput list" where
  "ex_batch =
     [ex_input ''Love this app!'' ''2026-01-29T09:00:00Z'',
      ex_input ''Too expensive'' ''2026-01-29T10:00:00Z'',
      ex_input ''ok'' ''2026-01-28T10:00:00Z'',
      ex_input ''hm'' ''2026-01-27T10:00:00Z'',
      ex_input ''meh'' ''2026-01-27T11:00:00Z'']"

definition empty_agent :: agent where
  "empty_agent = \<lparr>feedback_table = [], uuid_calls = 0, ai_calls = []\<rparr>"

text \<open>An environment whose model answers with a sentiment outside the three labels.\<close>

definition mixed_env :: env where
  \<open>mixed_env = ex_env\<lparr>AI_run :=
     (\<lambda>n p c. AI_response (Some ''{"sentiment":"mixed","score":7,"themes":["ui"]}''))\<rparr>\<close>

definition malformed_item :: RawInput where
  "malformed_item = \<lparr>in_source = Some ''email'', in_content = None,
     in_timestamp = Some ''2026-01-29T10:00:00Z'', in_metadata = None\<rparr>"

definition malformed_batch :: "RawInput list" where
  "malformed_batch =
     [ex_input ''Love this app!'' ''2026-01-29T09:00:00Z''] @
     malformed_item # [ex_input ''ok'' ''2026-01-28T10:00:00Z'']"

text \<open>A table written down row by row, and an agent that holds it.\<close>

definition ex_row :: "string \<Rightarrow> string \<Rightarrow> string \<Rightarrow> rat \<Rightarrow> string list \<Rightarrow> row" where
  "ex_row i t s sc ths = \<lparr>row_id = i, row_source = ''app_store'', row_content = ''text '' @ i,
     row_timestamp = t, row_sentiment = JStr s, row_score = sc, row_themes = map JStr ths,
     row_metadata = JObj []\<rparr>"

definition ex_table :: "row list" where
  "ex_table =
     [ex_row ''a'' ''2026-01-27T08:00:00Z'' ''negative'' 2 [''support'', ''404''],
      ex_row ''b'' ''2026-01-29T09:00:00Z'' ''positive'' 9 [''pricing''],
      ex_row ''c'' ''2026-01-28T10:00:00Z'' ''negative'' 3 [''pricing''],
      ex_row ''d'' ''2026-01-29T11:30:00Z'' ''positive'' 7 [''pricing''],
      ex_row ''e'' ''2026-01-28T12:00:00Z'' ''neutral'' 5 []]"

definition ex_agent :: agent where
  "ex_agent = \<lparr>feedback_table = ex_table, uuid_calls = 5, ai_calls = []\<rparr>"


section \<open>Properties of ingestion\<close>

lemma length_expected: "length (expected e u a items) = length items"
  by (induction items arbitrary: u a) auto

lemma nth_expected: "k < length items \<Longrightarrow> expected e u a items ! k = classified e (u + k) (a + k) (items ! k)"
proof (induction items arbitrary: u a k)
  case Nil then show ?case by simp
next
  case (Cons x xs) then show ?case by (cases k) auto
qed

lemma sql_insert_wf:
  "well_formed item \<Longrightarrow> i \<notin> row_id ` set tbl \<Longrightarrow>
   sql_insert tbl i item s sc ths = Inr (tbl @ [to_row (make_feedback i item s sc ths)])"
  by (auto simp: well_formed_def sql_insert_def to_row_def make_feedback_def split: option.splits)


lemma upt_add_Suc: "[u..<u + Suc n] = u # [Suc u..<Suc u + n]"
  by (simp add: upt_conv_Cons)

lemma fresh_ids_Suc:
  "fresh_ids e st (Suc n) \<longleftrightarrow>
     randomUUID e (uuid_calls st) \<notin> row_id ` set (feedback_table st) \<and>
     randomUUID e (uuid_calls st) \<notin> set (map (randomUUID e) [Suc (uuid_calls st)..<Suc (uuid_calls st) + n]) \<and>
     distinct (map (randomUUID e) [Suc (uuid_calls st)..<Suc (uuid_calls st) + n]) \<and>
     (\<forall>i \<in> set (map (randomUUID e) [Suc (uuid_calls st)..<Suc (uuid_calls st) + n]).
        i \<notin> row_id ` set (feedback_table st))"
  unfolding fresh_ids_def Let_def upt_add_Suc
  by (simp del: upt_Suc add_Suc_right add_Suc) blast

lemma fresh_ids_head:
  "fresh_ids e st (Suc n) \<Longrightarrow> randomUUID e (uuid_calls st) \<notin> row_id ` set (feedback_table st)"
  unfolding fresh_ids_Suc by blast

lemma fresh_ids_tail:
  assumes "fresh_ids e st (Suc n)" and "row_id r = randomUUID e (uuid_calls st)"
  shows "fresh_ids e (st\<lparr>uuid_calls := Suc (uuid_calls st), ai_calls := c,
           feedback_table := feedback_table st @ [r]\<rparr>) n"
proof -
  let ?ids = "map (randomUUID e) [Suc (uuid_calls st)..<Suc (uuid_calls st) + n]"
  from assms(1) have a: "randomUUID e (uuid_calls st) \<notin> set ?ids" and b: "distinct ?ids"
    and c: "\<forall>i \<in> set ?ids. i \<notin> row_id ` set (feedback_table st)"
    unfolding fresh_ids_Suc by blast+
  show ?thesis
    unfolding fresh_ids_def Let_def using a b c assms(2)
    by (auto simp del: upt_Suc) (metis atLeastLessThan_iff imageI)
qed


lemma ingest_loop_prefix:
  "\<forall>item \<in> set pre. well_formed item \<Longrightarrow> fresh_ids e st (length pre) \<Longrightarrow>
   ingest_loop e (pre @ rest) processed st =
     ingest_loop e rest (processed @ expected e (uuid_calls st) (length (ai_calls st)) pre)
       (after_items e st pre)"
proof (induction pre arbitrary: processed st)
  case Nil
  then show ?case by (simp add: after_items_def)
next
  case (Cons item items)
  obtain s sc ths where an: "analyze e (AI_run e (length (ai_calls st)) AnalyzePrompt (in_content item)) = (s, sc, ths)"
    by (cases "analyze e (AI_run e (length (ai_calls st)) AnalyzePrompt (in_content item))") auto
  let ?i = "randomUUID e (uuid_calls st)"
  let ?fb = "make_feedback ?i item s sc ths"
  let ?st2 = "st\<lparr>uuid_calls := Suc (uuid_calls st),
                 ai_calls := ai_calls st @ [(AnalyzePrompt, in_content item)],
                 feedback_table := feedback_table st @ [to_row ?fb]\<rparr>"
  have wf: "well_formed item" and wfs: "\<forall>x \<in> set items. well_formed x"
    using Cons.prems(1) by auto
  have fr: "fresh_ids e st (Suc (length items))" using Cons.prems(2) by simp
  have ins: "sql_insert (feedback_table st) ?i item s sc ths = Inr (feedback_table st @ [to_row ?fb])"
    by (rule sql_insert_wf[OF wf fresh_ids_head[OF fr]])
  have fr2: "fresh_ids e ?st2 (length items)"
    by (rule fresh_ids_tail[OF fr]) (simp add: to_row_def make_feedback_def)
  have cl: "classified e (uuid_calls st) (length (ai_calls st)) item = ?fb"
    by (simp add: classified_def an)
  have step: "ingest_loop e ((item # items) @ rest) processed st =
              ingest_loop e (items @ rest) (processed @ [?fb]) ?st2"
    by (simp add: Let_def an ins)
  show ?case
    unfolding step Cons.IH[OF wfs fr2] by (simp add: cl after_items_def)
qed

lemma ingest_loop_wf:
  assumes "\<forall>item \<in> set items. well_formed item" and "fresh_ids e st (length items)"
  shows "ingest_loop e items processed st =
     (Inr (processed @ expected e (uuid_calls st) (length (ai_calls st)) items),
      after_items e st items)"
  using ingest_loop_prefix[OF assms, of "[]" processed] by simp

lemma ingest_loop_malformed:
  assumes "\<forall>item \<in> set pre. well_formed item" and "fresh_ids e st (length pre)"
    and "\<not> well_formed bad"
  shows "ingest_loop e (pre @ bad # post) processed st =
     (Inl NotNullConstraint, (after_items e st (pre @ [bad]))\<lparr>feedback_table := feedback_table (after_items e st pre)\<rparr>)"
proof -
  have ins: "sql_insert tbl i bad s sc ths = Inl NotNullConstraint" for tbl i s sc ths
    using assms(3) by (auto simp: sql_insert_def well_formed_def split: option.splits)
  show ?thesis
    unfolding ingest_loop_prefix[OF assms(1,2)]
    by (simp add: Let_def ins after_items_def split: prod.splits)
qed

lemma truthy_not_null: "truthy v \<Longrightarrow> v \<noteq> JNull"
  by auto

lemma read_parsed_truthy: "truthy (fst (read_parsed p))"
  by (cases p) (auto simp: neutral_def split: option.splits)

lemma analyze_truthy: "truthy (fst (analyze e out))"
  by (auto simp: analyze_def neutral_def read_parsed_truthy Let_def split: ai_outcome.splits option.splits)



lemma classified_fields:
  "(sentiment (classified e u a item), score (classified e u a item), themes (classified e u a item))
     = analyze e (AI_run e a AnalyzePrompt (in_content item))"
  by (simp add: classified_def make_feedback_def split: prod.splits)

lemma classified_input:
  "well_formed item \<Longrightarrow>
   in_source item = Some (source (classified e u a item)) \<and>
   in_content item = Some (content (classified e u a item)) \<and>
   in_timestamp item = Some (timestamp (classified e u a item)) \<and>
   metadata (classified e u a item) = in_metadata item \<and>
   item_id (classified e u a item) = randomUUID e u"
  by (auto simp: classified_def make_feedback_def well_formed_def split: prod.splits)

lemma classified_sentiment: "truthy (sentiment (classified e u a item))"
  using analyze_truthy[of e "AI_run e a AnalyzePrompt (in_content item)"]
  by (auto simp: classified_def make_feedback_def split: prod.splits)

lemma analyze_fails: "classification_fails e out \<Longrightarrow> analyze e out = (neutral, 5, [])"
  by (auto simp: classification_fails_def analyze_def Let_def split: ai_outcome.splits option.splits)

lemma analyze_parsed:
  assumes "parsed_object e out = Some kvs"
  shows "analyze e out = read_parsed (JObj kvs)"
proof (cases out)
  case AI_throws
  with assms show ?thesis by (simp add: parsed_object_def)
next
  case (AI_response r)
  let ?t = "case r of None \<Rightarrow> [] | Some t \<Rightarrow> t"
  from assms AI_response obtain m where m: "match_braces ?t = Some m"
    by (cases "match_braces ?t") (auto simp: parsed_object_def)
  from assms AI_response m obtain p where p: "JSON_parse e m = Some p"
    by (cases "JSON_parse e m") (auto simp: parsed_object_def)
  from assms AI_response m p have "p = JObj kvs"
    by (cases p) (auto simp: parsed_object_def)
  with AI_response m p show ?thesis by (simp add: analyze_def)
qed

lemma ex_batch_well_formed: "list_all well_formed ex_batch"
  by (simp add: ex_batch_def ex_input_def well_formed_def)

lemma ex_batch_fresh: "fresh_ids ex_env empty_agent (length ex_batch)"
  by code_simp

text \<open>
  Claim C1. For a batch of well-formed inputs, with fresh identifiers, \<^verbatim>\<open>ingestFeedback\<close>
  returns one item per input, in the order of the inputs: the item at position \<open>k\<close> has
  the source, content, timestamp and metadata of the input at position \<open>k\<close>. Its
  sentiment is not null (it is a truthy value) and its score is a number (the type of
  the field \<open>score\<close>). The table grows by exactly the rows of the returned items, in
  their order.
\<close>

theorem ingestFeedback_one_item_per_input:
  assumes "list_all well_formed items" and "fresh_ids e st (length items)"
  shows "\<exists>processed st'.
     ingestFeedback e items st = (Inr processed, st') \<and>
     length processed = length items \<and>
     (\<forall>k < length items.
        in_source (items ! k) = Some (source (processed ! k)) \<and>
        in_content (items ! k) = Some (content (processed ! k)) \<and>
        in_timestamp (items ! k) = Some (timestamp (processed ! k)) \<and>
        metadata (processed ! k) = in_metadata (items ! k) \<and>
        item_id (processed ! k) = randomUUID e (uuid_calls st + k) \<and>
        sentiment (processed ! k) \<noteq> JNull \<and> truthy (sentiment (processed ! k))) \<and>
     feedback_table st' = feedback_table st @ map to_row processed"
proof -
  let ?p = "expected e (uuid_calls st) (length (ai_calls st)) items"
  have run: "ingestFeedback e items st = (Inr ?p, after_items e st items)"
    unfolding ingestFeedback_def using ingest_loop_wf[OF assms[unfolded list_all_iff], of "[]"] by simp
  have each: "in_source (items ! k) = Some (source (?p ! k)) \<and>
        in_content (items ! k) = Some (content (?p ! k)) \<and>
        in_timestamp (items ! k) = Some (timestamp (?p ! k)) \<and>
        metadata (?p ! k) = in_metadata (items ! k) \<and>
        item_id (?p ! k) = randomUUID e (uuid_calls st + k) \<and>
        sentiment (?p ! k) \<noteq> JNull \<and> truthy (sentiment (?p ! k))" if "k < length items" for k
  proof -
    have wf: "well_formed (items ! k)" using assms(1) that by (simp add: list_all_length)
    show ?thesis
      unfolding nth_expected[OF that]
      using classified_input[OF wf] classified_sentiment truthy_not_null by blast
  qed
  have tbl: "feedback_table (after_items e st items) = feedback_table st @ map to_row ?p"
    by (simp add: after_items_def)
  show ?thesis
    using run each tbl length_expected by blast
qed

theorem ingestFeedback_one_item_per_input_witness:
  "list_all well_formed ex_batch \<and> fresh_ids ex_env empty_agent (length ex_batch) \<and>
   (\<exists>processed st'.
     ingestFeedback ex_env ex_batch empty_agent = (Inr processed, st') \<and>
     length processed = length ex_batch \<and>
     (\<forall>k < length ex_batch.
        in_source (ex_batch ! k) = Some (source (processed ! k)) \<and>
        in_content (ex_batch ! k) = Some (content (processed ! k)) \<and>
        in_timestamp (ex_batch ! k) = Some (timestamp (processed ! k)) \<and>
        metadata (processed ! k) = in_metadata (ex_batch ! k) \<and>
        item_id (processed ! k) = randomUUID ex_env (uuid_calls empty_agent + k) \<and>
        sentiment (processed ! k) \<noteq> JNull \<and> truthy (sentiment (processed ! k))) \<and>
     feedback_table st' = feedback_table empty_agent @ map to_row processed)"
  using ingestFeedback_one_item_per_input[OF ex_batch_well_formed ex_batch_fresh]
    ex_batch_well_formed ex_batch_fresh by simp

text \<open>
  Claim C2. In a batch of well-formed inputs, with fresh identifiers, every input is
  processed whatever the model answers: the function returns normally with one item per
  input. The item at position \<open>k\<close> depends on the outcome of the \<open>k\<close>-th call alone: when
  that classification fails (the call throws, no brace-delimited substring, or the parse
  throws) the item has sentiment neutral, score 5 and no themes; when an object was
  parsed, a missing sentiment gives neutral, a missing or non-numeric score gives 5, and
  themes that are not an array give the empty list.
\<close>

theorem classification_fallback:
  assumes "list_all well_formed items" and "fresh_ids e st (length items)"
  shows "\<exists>processed st'.
     ingestFeedback e items st = (Inr processed, st') \<and>
     length processed = length items \<and>
     (\<forall>k < length items. \<forall>out.
        out = AI_run e (length (ai_calls st) + k) AnalyzePrompt (in_content (items ! k)) \<longrightarrow>
        (classification_fails e out \<longrightarrow>
           sentiment (processed ! k) = neutral \<and> score (processed ! k) = 5 \<and>
           themes (processed ! k) = []) \<and>
        (\<forall>kvs. parsed_object e out = Some kvs \<longrightarrow>
           (map_of kvs ''sentiment'' = None \<longrightarrow> sentiment (processed ! k) = neutral) \<and>
           ((\<forall>n. map_of kvs ''score'' \<noteq> Some (JNum n)) \<longrightarrow> score (processed ! k) = 5) \<and>
           ((\<forall>ts. map_of kvs ''themes'' \<noteq> Some (JArr ts)) \<longrightarrow> themes (processed ! k) = [])))"
proof -
  let ?p = "expected e (uuid_calls st) (length (ai_calls st)) items"
  have run: "ingestFeedback e items st = (Inr ?p, after_items e st items)"
    unfolding ingestFeedback_def using ingest_loop_wf[OF assms[unfolded list_all_iff], of "[]"] by simp
  have each: "(classification_fails e out \<longrightarrow>
           sentiment (?p ! k) = neutral \<and> score (?p ! k) = 5 \<and> themes (?p ! k) = []) \<and>
        (\<forall>kvs. parsed_object e out = Some kvs \<longrightarrow>
           (map_of kvs ''sentiment'' = None \<longrightarrow> sentiment (?p ! k) = neutral) \<and>
           ((\<forall>n. map_of kvs ''score'' \<noteq> Some (JNum n)) \<longrightarrow> score (?p ! k) = 5) \<and>
           ((\<forall>ts. map_of kvs ''themes'' \<noteq> Some (JArr ts)) \<longrightarrow> themes (?p ! k) = []))"
    if k: "k < length items"
      and out: "out = AI_run e (length (ai_calls st) + k) AnalyzePrompt (in_content (items ! k))"
    for k out
  proof -
    let ?f = "?p ! k"
    have f: "(sentiment ?f, score ?f, themes ?f) = analyze e out"
      unfolding nth_expected[OF k] out by (rule classified_fields)
    have a: "sentiment ?f = neutral \<and> score ?f = 5 \<and> themes ?f = []"
      if "classification_fails e out"
      using f analyze_fails[OF that] by simp
    have b: "(map_of kvs ''sentiment'' = None \<longrightarrow> sentiment ?f = neutral) \<and>
           ((\<forall>n. map_of kvs ''score'' \<noteq> Some (JNum n)) \<longrightarrow> score ?f = 5) \<and>
           ((\<forall>ts. map_of kvs ''themes'' \<noteq> Some (JArr ts)) \<longrightarrow> themes ?f = [])"
      if "parsed_object e out = Some kvs" for kvs
      using f analyze_parsed[OF that]
      by (auto split: option.splits json.splits)
    show ?thesis using a b by blast
  qed
  show ?thesis
    using run each length_expected by blast
qed

theorem classification_fallback_witness:
  "list_all well_formed ex_batch \<and> fresh_ids ex_env empty_agent (length ex_batch) \<and>
   (\<exists>processed st'.
     ingestFeedback ex_env ex_batch empty_agent = (Inr processed, st') \<and>
     length processed = length ex_batch \<and>
     (\<forall>k < length ex_batch. \<forall>out.
        out = AI_run ex_env (length (ai_calls empty_agent) + k) AnalyzePrompt
                (in_content (ex_batch ! k)) \<longrightarrow>
        (classification_fails ex_env out \<longrightarrow>
           sentiment (processed ! k) = neutral \<and> score (processed ! k) = 5 \<and>
           themes (processed ! k) = []) \<and>
        (\<forall>kvs. parsed_object ex_env out = Some kvs \<longrightarrow>
           (map_of kvs ''sentiment'' = None \<longrightarrow> sentiment (processed ! k) = neutral) \<and>
           ((\<forall>n. map_of kvs ''score'' \<noteq> Some (JNum n)) \<longrightarrow> score (processed ! k) = 5) \<and>
           ((\<forall>ts. map_of kvs ''themes'' \<noteq> Some (JArr ts)) \<longrightarrow> themes (processed ! k) = []))))"
  using classification_fallback[OF ex_batch_well_formed ex_batch_fresh]
    ex_batch_well_formed ex_batch_fresh by simp

text \<open>
  Claim C3 says that the stored sentiment is always one of positive, neutral, negative.
  The assignment \<^verbatim>\<open>sentiment = parsed.sentiment || "neutral"\<close> checks nothing but
  truthiness: when the model answers with the sentiment \<^verbatim>\<open>"mixed"\<close>, the row that is
  stored has the sentiment \<^verbatim>\<open>"mixed"\<close>.
\<close>

theorem sentiment_mixed_is_stored:
  "map row_sentiment (feedback_table (snd (ingestFeedback mixed_env
      [ex_input ''It is fine, I guess'' ''2026-01-29T09:00:00Z''] empty_agent))) = [JStr ''mixed'']"
  by code_simp

text \<open>
  Claim C9 says that the well-formed inputs behind a malformed one are still attempted.
  In the example batch the second input has no content: the request is answered with
  status 500, the row of the first input stays in the table, and the third input is
  never looked at: there is neither a call of the model nor a row for it.
\<close>

theorem rest_of_batch_not_attempted:
  "fst (fetch_ingest ex_env (Some malformed_batch) empty_agent) = Status500 NotNullConstraint \<and>
   map row_content (feedback_table (snd (fetch_ingest ex_env (Some malformed_batch) empty_agent)))
     = [''Love this app!''] \<and>
   ai_calls (snd (fetch_ingest ex_env (Some malformed_batch) empty_agent))
     = [(AnalyzePrompt, Some ''Love this app!''), (AnalyzePrompt, None)]"
  by code_simp

text \<open>
  Claim C9, amended. When the inputs before the first malformed one are well formed and
  get fresh identifiers, the request is answered with status 500 and the error of the
  \<^verbatim>\<open>INSERT\<close>; the rows of the inputs before the malformed one are in the table; the model
  was called for these inputs and for the malformed one; the loop ends there, so no
  input behind the malformed one is processed.
\<close>

theorem fetch_ingest_stops_at_malformed_item:
  assumes "list_all well_formed pre" and "fresh_ids e st (length pre)"
    and "\<not> well_formed bad"
  shows "fetch_ingest e (Some (pre @ bad # post)) st =
     (Status500 NotNullConstraint,
      st\<lparr>uuid_calls := uuid_calls st + length pre + 1,
         ai_calls := ai_calls st @ map (\<lambda>item. (AnalyzePrompt, in_content item)) (pre @ [bad]),
         feedback_table := feedback_table st @
            map to_row (expected e (uuid_calls st) (length (ai_calls st)) pre)\<rparr>)"
  unfolding fetch_ingest_def ingestFeedback_def
  by (simp add: ingest_loop_malformed[OF assms[unfolded list_all_iff]] after_items_def)

theorem fetch_ingest_stops_at_malformed_item_witness:
  "list_all well_formed [ex_input ''Love this app!'' ''2026-01-29T09:00:00Z''] \<and>
   fresh_ids ex_env empty_agent (length [ex_input ''Love this app!'' ''2026-01-29T09:00:00Z'']) \<and>
   \<not> well_formed malformed_item \<and>
   fetch_ingest ex_env (Some malformed_batch) empty_agent =
     (Status500 NotNullConstraint,
      \<lparr>feedback_table =
         [\<lparr>row_id = ''u'', row_source = ''app_store'', row_content = ''Love this app!'',
           row_timestamp = ''2026-01-29T09:00:00Z'', row_sentiment = JStr ''positive'',
           row_score = 9, row_themes = [JStr ''pricing'', JStr ''404''],
           row_metadata = JObj []\<rparr>],
       uuid_calls = 2,
       ai_calls = [(AnalyzePrompt, Some ''Love this app!''), (AnalyzePrompt, None)]\<rparr>)"
proof -
  let ?pre = "[ex_input ''Love this app!'' ''2026-01-29T09:00:00Z'']"
  have h1: "list_all well_formed ?pre"
    by (simp add: ex_input_def well_formed_def)
  have h2: "fresh_ids ex_env empty_agent (length ?pre)"
    by code_simp
  have h3: "\<not> well_formed malformed_item"
    by (simp add: malformed_item_def well_formed_def)
  have r: "st = \<lparr>feedback_table =
         [\<lparr>row_id = ''u'', row_source = ''app_store'', row_content = ''Love this app!'',
           row_timestamp = ''2026-01-29T09:00:00Z'', row_sentiment = JStr ''positive'',
           row_score = 9, row_themes = [JStr ''pricing'', JStr ''404''],
           row_metadata = JObj []\<rparr>],
       uuid_calls = 2,
       ai_calls = [(AnalyzePrompt, Some ''Love this app!''), (AnalyzePrompt, None)]\<rparr>"
    if "st = empty_agent\<lparr>uuid_calls := uuid_calls empty_agent + length ?pre + 1,
         ai_calls := ai_calls empty_agent @
            map (\<lambda>item. (AnalyzePrompt, in_content item)) (?pre @ [malformed_item]),
         feedback_table := feedback_table empty_agent @
            map to_row (expected ex_env (uuid_calls empty_agent) (length (ai_calls empty_agent)) ?pre)\<rparr>"
    for st
    unfolding that by code_simp
  show ?thesis
    using fetch_ingest_stops_at_malformed_item[OF h1 h2 h3, of "[ex_input ''ok'' ''2026-01-28T10:00:00Z'']"]
      h1 h2 h3 r
    unfolding malformed_batch_def by simp
qed


section \<open>Properties of the dashboard's average score\<close>













section \<open>Properties of the trends\<close>

lemma tr_date_trend_entry: "tr_date (trend_entry e rows d) = d"
  by (simp add: trend_entry_def Let_def)


lemma getTrends_entry:
  assumes "t \<in> set (getTrends e days st)"
  shows "t = trend_entry e (trend_window e days (feedback_table st)) (tr_date t) \<and>
         tr_date t \<in> row_date e ` set (trend_window e days (feedback_table st))"
proof -
  let ?rows = "trend_window e days (feedback_table st)"
  from assms obtain d where d: "d \<in> set (map (row_date e) ?rows)" and t: "t = trend_entry e ?rows d"
    by (auto simp: getTrends_def Let_def)
  have "tr_date t = d" using t by (simp add: tr_date_trend_entry)
  with d t show ?thesis by auto
qed


lemma length_filter_three:
  "length (filter P xs) + length (filter Q xs) + length (filter (\<lambda>x. \<not> P x \<and> \<not> Q x) xs) = length xs"
  if "\<And>x. P x \<Longrightarrow> \<not> Q x"
  using that by (induction xs) auto



text \<open>
  Claim C10. In every entry of the trends the positive and the negative count add up to
  at most the total: the total is their sum plus the number of that day's rows whose
  sentiment is neither positive nor negative. The average of the entry is taken over
  all rows of the day, these rows included.
\<close>

theorem getTrends_subcounts:
  "(let rows = trend_window e days (feedback_table st)
    in \<forall>t \<in> set (getTrends e days st).
         tr_positive t + tr_negative t \<le> tr_total t \<and>
         tr_total t = tr_positive t + tr_negative t +
           length (filter (\<lambda>r. row_date e r = tr_date t \<and>
                               row_sentiment r \<noteq> JStr ''positive'' \<and>
                               row_sentiment r \<noteq> JStr ''negative'') rows) \<and>
         tr_avgScore t =
           of_int (Math_round ((case sql_AVG (map row_score (filter (\<lambda>r. row_date e r = tr_date t) rows)) of
                                  Some a \<Rightarrow> a | None \<Rightarrow> 0) * 10)) / 10)"
proof -
  let ?rows = "trend_window e days (feedback_table st)"
  have c: "tr_positive t + tr_negative t \<le> tr_total t \<and>
         tr_total t = tr_positive t + tr_negative t +
           length (filter (\<lambda>r. row_date e r = tr_date t \<and>
                               row_sentiment r \<noteq> JStr ''positive'' \<and>
                               row_sentiment r \<noteq> JStr ''negative'') ?rows) \<and>
         tr_avgScore t =
           of_int (Math_round ((case sql_AVG (map row_score (filter (\<lambda>r. row_date e r = tr_date t) ?rows)) of
                                  Some a \<Rightarrow> a | None \<Rightarrow> 0) * 10)) / 10"
    if t: "t \<in> set (getTrends e days st)" for t
  proof -
    let ?grp = "filter (\<lambda>r. row_date e r = tr_date t) ?rows"
    let ?P = "\<lambda>r. row_sentiment r = JStr ''positive''"
    let ?Q = "\<lambda>r. row_sentiment r = JStr ''negative''"
    from getTrends_entry[OF t] have eq: "t = trend_entry e ?rows (tr_date t)" by auto
    have f: "tr_total t = length ?grp"
       "tr_positive t = length (filter ?P ?grp)"
       "tr_negative t = length (filter ?Q ?grp)"
       "tr_avgScore t = of_int (Math_round ((case sql_AVG (map row_score ?grp) of Some a \<Rightarrow> a | None \<Rightarrow> 0) * 10)) / 10"
      by (subst eq, simp add: trend_entry_def Let_def)+
    have three: "length (filter ?P ?grp) + length (filter ?Q ?grp) +
                 length (filter (\<lambda>r. \<not> ?P r \<and> \<not> ?Q r) ?grp) = length ?grp"
      by (rule length_filter_three) simp
    have other: "filter (\<lambda>r. \<not> ?P r \<and> \<not> ?Q r) ?grp =
                 filter (\<lambda>r. row_date e r = tr_date t \<and> \<not> ?P r \<and> \<not> ?Q r) ?rows"
      by (simp add: conj_commute)
    show ?thesis
      using f three unfolding other by simp
  qed
  show ?thesis unfolding Let_def using c by blast
qed


theorem getTrends_subcounts_witness:
  "map (\<lambda>t. (tr_positive t, tr_negative t, tr_total t)) (getTrends ex_env 30 ex_agent) =
     [(0, 1, 1), (0, 1, 2), (2, 0, 2)] \<and>
   list_all (\<lambda>t. tr_positive t + tr_negative t \<le> tr_total t) (getTrends ex_env 30 ex_agent)"
proof -
  have v: "map (\<lambda>t. (tr_positive t, tr_negative t, tr_total t)) (getTrends ex_env 30 ex_agent) =
     [(0, 1, 1), (0, 1, 2), (2, 0, 2)]"
    by code_simp
  have p: "list_all (\<lambda>t. tr_positive t + tr_negative t \<le> tr_total t) (getTrends ex_env 30 ex_agent)"
    using getTrends_subcounts[of ex_env 30 ex_agent] unfolding Let_def list_all_iff by blast
  show ?thesis using v p by blast
qed


section \<open>Properties of the summary\<close>








section \<open>Properties of the themes of the dashboard\<close>





lemma set_first_seen [simp]: "set (first_seen xs) = set xs"
  by (induction xs rule: first_seen.induct) auto

lemma distinct_first_seen [simp]: "distinct (first_seen xs)"
  by (induction xs rule: first_seen.induct) auto























lemma th_theme_health_entry [simp]: "th_theme (health_entry (k, d)) = k"
  by (simp add: health_entry_def)









end
